theory Spec2Isabelle
  imports Main
begin

section \<open>The C environment of \<open>server.c\<close>\<close>

text \<open>
  \<open>server.c\<close> is a Unix-domain socket server of three functions: \<open>start_server\<close>,
  \<open>init_server\<close> and \<open>handle_client\<close>. Everything they do is a system call or a
  line on standard output, so the model records each of them as an event, in program
  order, and takes the outcome of every system call from an environment.
\<close>

text \<open>A C \<open>char\<close> is a byte: the type \<open>char\<close>. A \<open>char\<close> array is a \<open>string\<close>.\<close>

definition NUL :: char where
  "NUL = CHR 0x00"

definition AF_UNIX :: int where
  \<comment> \<open>\<open>sys/socket.h\<close>\<close>
  "AF_UNIX = 1"

record sockaddr_un =
  sun_family :: int
  sun_path :: string

definition sizeof_sockaddr_un :: nat where
  \<comment> \<open>\<open>sizeof(struct sockaddr_un)\<close>: a 2-byte family and a 108-byte path\<close>
  "sizeof_sockaddr_un = 110"

datatype event =
    Puts string
  | Printf string
  | Call_socket int int int
  | Call_bind int sockaddr_un nat
  | Call_listen int int
  | Call_accept int
  | Call_recv int nat int
  | Call_send int string int
  | Call_close int

text \<open>
  \<open>a < b\<close> in C on two \<open>size_t\<close> operands (an \<open>int\<close> operand is converted to
  \<open>size_t\<close> first): the result is the \<open>int\<close> 1 or 0.
\<close>

definition c_less_size_t :: "nat \<Rightarrow> nat \<Rightarrow> nat" where
  "c_less_size_t a b = (if a < b then 1 else 0)"

text \<open>A string literal in memory: its characters and the terminator.\<close>

definition string_literal :: "string \<Rightarrow> string" where
  "string_literal s = s @ [NUL]"

text \<open>What \<open>%s\<close> prints and \<open>strlen\<close> counts: the bytes before the first terminator.\<close>

definition c_str :: "string \<Rightarrow> string" where
  "c_str m = takeWhile (\<lambda>c. c \<noteq> NUL) m"

definition strlen :: "string \<Rightarrow> nat" where
  "strlen m = length (c_str m)"

section \<open>Start: \<open>start_server\<close>\<close>

text \<open>
  The environment of \<open>start_server\<close>: what \<open>socket\<close>, \<open>bind\<close> and \<open>listen\<close> return
  for the arguments they are called with, and the value of the identifier
  \<open>SOCK_STEAM\<close>, which line 5 passes as the socket type and which no file under
  \<open>src/\<close> declares.
\<close>

record startup_env =
  SOCK_STEAM :: int
  socket_ret :: "int \<Rightarrow> int \<Rightarrow> int \<Rightarrow> int"
  bind_ret :: "int \<Rightarrow> sockaddr_un \<Rightarrow> nat \<Rightarrow> int"
  listen_ret :: "int \<Rightarrow> int \<Rightarrow> int"

record startup_result =
  ret :: int
  socket_global :: int
  s_trace :: "event list"

text \<open>
  Line 18 reads
  \<^verbatim>\<open>if(bind(server_socket, (struct sockaddrr *)&server_address, sizeof(server_address) < 0))\<close>:
  the third argument of \<open>bind\<close> is the comparison \<open>sizeof(server_address) < 0\<close>, and
  the condition of the \<open>if\<close> is the value \<open>bind\<close> returns, true when it is not 0.
\<close>

definition start_server :: "startup_env \<Rightarrow> startup_result" where
  "start_server k =
     (let server_socket = socket_ret k AF_UNIX (SOCK_STEAM k) 0;
          tr = [Call_socket AF_UNIX (SOCK_STEAM k) 0]
      in if server_socket < 0 then
           \<lparr>ret = - 1, socket_global = server_socket,
            s_trace = tr @ [Puts ''Erro na criacao do server_socket.'']\<rparr>
         else
           (let server_address = \<lparr>sun_family = AF_UNIX, sun_path = ''/tmp/arq_socket''\<rparr>;
                address_len = c_less_size_t sizeof_sockaddr_un 0;
                tr = tr @ [Call_bind server_socket server_address address_len]
            in if bind_ret k server_socket server_address address_len \<noteq> 0 then
                 \<lparr>ret = - 1, socket_global = server_socket,
                  s_trace = tr @ [Puts ''Erro ao vincular o server_socket'']\<rparr>
               else
                 (let tr = tr @ [Call_listen server_socket 5]
                  in if listen_ret k server_socket 5 < 0 then
                       \<lparr>ret = - 1, socket_global = server_socket,
                        s_trace = tr @ [Puts ''Erro ao colocar o server_socket em listen'']\<rparr>
                     else
                       \<lparr>ret = 0, socket_global = server_socket,
                        s_trace = tr @ [Puts ''Servidor iniciado e escutando...'']\<rparr>)))"

text \<open>
  The kernel's \<open>bind\<close> on a Unix-domain socket, as \<open>bind(2)\<close> documents it: an
  address length that does not cover the address family is refused (\<open>EINVAL\<close>);
  otherwise the call fails when the path is in use (\<open>EADDRINUSE\<close>) or cannot be
  reached (\<open>EACCES\<close>, \<open>ENOENT\<close>), and returns 0 when the path is free.
\<close>

record path_state =
  in_use :: bool
  inaccessible :: bool

definition sizeof_sa_family :: nat where
  "sizeof_sa_family = 2"

definition unix_bind :: "path_state \<Rightarrow> int \<Rightarrow> sockaddr_un \<Rightarrow> nat \<Rightarrow> int" where
  "unix_bind p fd addr address_len =
     (if address_len < sizeof_sa_family then - 1
      else if in_use p then - 1
      else if inaccessible p then - 1
      else 0)"

text \<open>
  A host on which every step of Start can succeed: \<open>socket\<close> returns descriptor 3,
  \<open>listen\<close> returns 0, and \<open>bind\<close> is the kernel's, on a path in state \<open>p\<close>.
\<close>

definition host :: "path_state \<Rightarrow> startup_env" where
  "host p = \<lparr>SOCK_STEAM = 1, socket_ret = (\<lambda>domain type protocol. 3),
             bind_ret = unix_bind p, listen_ret = (\<lambda>fd backlog. 0)\<rparr>"

definition free_path :: path_state where
  "free_path = \<lparr>in_use = False, inaccessible = False\<rparr>"

section \<open>The Session Handler: \<open>handle_client\<close>\<close>

text \<open>
  What one accepted connection's peer and kernel do: the value \<open>accept\<close> returns, the
  bytes the automatic array \<open>buffer\<close> happens to hold when \<open>handle_client\<close> is
  entered (C does not initialise it), the outcome of \<open>recv\<close> (an error, or the bytes
  queued on the connection when the call returns) and the outcome of \<open>send\<close>.

  \<open>send\<close> either returns a value (negative for an error) or does not return: on a
  connection whose peer has hung up the kernel raises \<open>SIGPIPE\<close>, and since line 74
  passes the flags 0 and nothing in the source handles or ignores the signal, the
  process ends inside \<open>send\<close>.
\<close>

datatype recv_outcome = Recv_error | Recv_data string

datatype send_outcome = Send_returns int | Send_sigpipe

record conn_env =
  accept_ret :: int
  stack_bytes :: string
  recv_result :: recv_outcome
  send_result :: send_outcome

definition sizeof_buffer :: nat where
  "sizeof_buffer = 256"

text \<open>\<open>char buffer[256]\<close>: 256 bytes, holding whatever the stack held.\<close>

definition fresh_buffer :: "string \<Rightarrow> string" where
  "fresh_buffer g = take sizeof_buffer (g @ replicate sizeof_buffer NUL)"

text \<open>
  \<open>recv(fd, buf, len, 0)\<close> on a stream socket: on an error it returns \<open>-1\<close> and leaves
  the buffer alone; otherwise it copies at most \<open>len\<close> of the queued bytes to the
  start of the buffer and returns how many it copied.
\<close>

definition recv_call :: "recv_outcome \<Rightarrow> string \<Rightarrow> nat \<Rightarrow> int \<times> string" where
  "recv_call r buf len =
     (case r of
        Recv_error \<Rightarrow> (- 1, buf)
      | Recv_data q \<Rightarrow> (int (length (take len q)), take len q @ drop (length (take len q)) buf))"

text \<open>
  \<open>buf[i] = c\<close> with a signed index: outside the array the behaviour of the C program
  is undefined, which the model reports as a fault.
\<close>

datatype fault = Out_of_bounds int

definition store_char :: "string \<Rightarrow> int \<Rightarrow> char \<Rightarrow> fault + string" where
  "store_char buf i c =
     (if 0 \<le> i \<and> i < int (length buf) then Inr (buf[nat i := c]) else Inl (Out_of_bounds i))"

text \<open>\<open>const char* response = "ACK Server"\<close>: the literal as it lies in memory.\<close>

definition response :: string where
  "response = string_literal ''ACK Server''"

text \<open>
  How a run of the handler ends: it returns to the loop, or the process is killed
  inside \<open>send\<close>. The result holds the events of the run and the buffer at its end.
\<close>

datatype ending = Returned | Killed_by_SIGPIPE

record handler_result =
  h_trace :: "event list"
  h_buffer :: string
  h_end :: ending

definition handle_client :: "conn_env \<Rightarrow> int \<Rightarrow> fault + handler_result" where
  "handle_client c client_socket =
     (let buffer = fresh_buffer (stack_bytes c);
          (bytes_received, buffer) = recv_call (recv_result c) buffer (sizeof_buffer - 1);
          tr = [Call_recv client_socket (sizeof_buffer - 1) 0]
      in if bytes_received < 0 then
           Inr \<lparr>h_trace = tr @ [Puts ''Erro ao receber dados do cliente''], h_buffer = buffer,
                h_end = Returned\<rparr>
         else
           (case store_char buffer bytes_received NUL of
              Inl f \<Rightarrow> Inl f
            | Inr buffer \<Rightarrow>
                (let tr = tr @ [Printf (''Cliente: '' @ c_str buffer @ [CHR 0x0A])];
                     tr = tr @ [Call_send client_socket (take (strlen response) response) 0]
                 in case send_result c of
                      Send_sigpipe \<Rightarrow>
                        Inr \<lparr>h_trace = tr, h_buffer = buffer, h_end = Killed_by_SIGPIPE\<rparr>
                    | Send_returns bytes_sent \<Rightarrow>
                        if bytes_sent < 0 then
                          Inr \<lparr>h_trace = tr @ [Puts ''Erro ao enviar dados para o cliente''],
                               h_buffer = buffer, h_end = Returned\<rparr>
                        else
                          Inr \<lparr>h_trace = tr @ [Puts ''Resposta enviada''], h_buffer = buffer,
                               h_end = Returned\<rparr>)))"

section \<open>Run: \<open>init_server\<close>\<close>

text \<open>
  The state of the accept loop: how many times \<open>accept\<close> has been called, and the
  events so far. The environment gives the \<open>i\<close>-th call of \<open>accept\<close> its connection.
\<close>

record listener =
  iter :: nat
  trace :: "event list"

text \<open>
  What stops the loop from inside a pass: undefined behaviour in the handler, or the
  kill of the process inside \<open>send\<close>, with the events up to it.
\<close>

datatype halt = Undefined_behaviour fault | Process_killed "event list"

definition loop_body :: "(nat \<Rightarrow> conn_env) \<Rightarrow> int \<Rightarrow> listener \<Rightarrow> halt + listener" where
  "loop_body env server_socket s =
     (let c = env (iter s);
          tr = trace s @ [Puts ''Aguardando conexao do cliente...'', Call_accept server_socket];
          client_socket = accept_ret c
      in if client_socket < 0 then
           Inr \<lparr>iter = Suc (iter s), trace = tr @ [Puts ''Erro ao aceitar a conexao'']\<rparr>
         else
           (let tr = tr @ [Puts ''Cliente conectado'']
            in case handle_client c client_socket of
                 Inl f \<Rightarrow> Inl (Undefined_behaviour f)
               | Inr h \<Rightarrow>
                   (case h_end h of
                      Killed_by_SIGPIPE \<Rightarrow> Inl (Process_killed (tr @ h_trace h))
                    | Returned \<Rightarrow>
                        Inr \<lparr>iter = Suc (iter s),
                             trace = tr @ h_trace h @
                               [Call_close client_socket, Puts ''Conexao encerrada'']\<rparr>)))"



section \<open>Observations on buffers and traces\<close>

text \<open>The buffer after \<open>recv\<close> has copied from the queue \<open>q\<close> into a buffer
  that held \<open>g\<close>, and line 69 has stored the terminator.\<close>

definition terminated_buffer :: "string \<Rightarrow> string \<Rightarrow> string" where
  "terminated_buffer g q =
     (take 255 q @ drop (min 255 (length q)) (fresh_buffer g))[min 255 (length q) := NUL]"

text \<open>The system calls among the events, without the lines printed.\<close>

fun is_syscall :: "event \<Rightarrow> bool" where
  "is_syscall (Puts m) = False"
| "is_syscall (Printf m) = False"
| "is_syscall e = True"

fun is_recv :: "event \<Rightarrow> bool" where
  "is_recv (Call_recv fd len flags) = True"
| "is_recv e = False"

fun is_send :: "event \<Rightarrow> bool" where
  "is_send (Call_send fd payload flags) = True"
| "is_send e = False"

text \<open>The events one pass through the loop body adds.\<close>

definition new_events :: "listener \<Rightarrow> listener \<Rightarrow> event list" where
  "new_events s s' = drop (length (trace s)) (trace s')"

text \<open>The same for a pass however it ends: in a next state, or in the kill of the process.\<close>

fun pass_events :: "listener \<Rightarrow> halt + listener \<Rightarrow> event list" where
  "pass_events s (Inr s') = new_events s s'"
| "pass_events s (Inl (Process_killed tr)) = drop (length (trace s)) tr"
| "pass_events s (Inl (Undefined_behaviour f)) = []"

text \<open>A connection on which the pass reaches \<open>send\<close> and the process is killed there.\<close>

fun received_data :: "recv_outcome \<Rightarrow> bool" where
  "received_data (Recv_data q) = True"
| "received_data Recv_error = False"


text \<open>An environment in which every connection behaves as \<open>c\<close>.\<close>

definition always :: "conn_env \<Rightarrow> nat \<Rightarrow> conn_env" where
  "always c i = c"


section \<open>Facts about Start\<close>

text \<open>The address length line 18 gives to \<open>bind\<close>.\<close>

lemma zero_address_length: "c_less_size_t sizeof_sockaddr_un 0 = 0"
  by (simp add: c_less_size_t_def)

section \<open>Facts about the handler\<close>

lemma length_fresh_buffer: "length (fresh_buffer g) = sizeof_buffer"
  by (simp add: fresh_buffer_def)

lemma wire_payload: "take (strlen response) response = ''ACK Server''"
  by (simp add: response_def strlen_def c_str_def string_literal_def NUL_def)

lemma c_str_terminated:
  assumes "ys \<noteq> []"
  shows "c_str ((xs @ ys)[length xs := NUL]) = c_str xs"
proof -
  from assms obtain y ys' where ys: "ys = y # ys'"
    by (cases ys) auto
  have "(xs @ ys)[length xs := NUL] = xs @ NUL # ys'"
    by (simp add: ys list_update_append)
  moreover have "takeWhile (\<lambda>c. c \<noteq> NUL) (xs @ NUL # ys') = takeWhile (\<lambda>c. c \<noteq> NUL) xs"
    by (induction xs) auto
  ultimately show ?thesis
    by (simp add: c_str_def)
qed

lemma recv_call_error: "recv_call Recv_error buf len = (- 1, buf)"
  by (simp add: recv_call_def)

lemma recv_call_data:
  "recv_call (Recv_data q) buf len =
     (int (min len (length q)), take len q @ drop (min len (length q)) buf)"
  by (simp add: recv_call_def min.commute)

lemma store_after_recv:
  "store_char (take 255 q @ drop (min 255 (length q)) (fresh_buffer g))
     (int (min 255 (length q))) NUL = Inr (terminated_buffer g q)"
  by (simp add: store_char_def terminated_buffer_def length_fresh_buffer sizeof_buffer_def)

lemma c_str_terminated_buffer: "c_str (terminated_buffer g q) = c_str (take 255 q)"
proof -
  have len: "length (take 255 q) = min 255 (length q)"
    by (simp add: min.commute)
  have ne: "drop (min 255 (length q)) (fresh_buffer g) \<noteq> []"
    by (simp add: length_fresh_buffer sizeof_buffer_def)
  show ?thesis
    unfolding terminated_buffer_def
    using c_str_terminated [OF ne, of "take 255 q"] by (simp only: len)
qed

lemma length_terminated_buffer: "length (terminated_buffer g q) = 256"
  by (simp add: terminated_buffer_def length_fresh_buffer sizeof_buffer_def)

lemma take_terminated_buffer:
  "take (min 255 (length q)) (terminated_buffer g q) = take 255 q"
proof -
  have len: "length (take 255 q) = min 255 (length q)"
    by (simp add: min.commute)
  have "take (length xs) ((xs @ ys)[length xs := v]) = xs" for xs ys :: string and v
    by simp
  from this [of "take 255 q"] show ?thesis
    unfolding terminated_buffer_def by (simp only: len)
qed

lemma nth_terminated_buffer: "terminated_buffer g q ! min 255 (length q) = NUL"
  by (simp add: terminated_buffer_def length_fresh_buffer sizeof_buffer_def)

lemma handle_client_recv_error:
  "recv_result c = Recv_error \<Longrightarrow>
   handle_client c fd =
     Inr \<lparr>h_trace = [Call_recv fd 255 0, Puts ''Erro ao receber dados do cliente''],
          h_buffer = fresh_buffer (stack_bytes c), h_end = Returned\<rparr>"
  by (simp add: handle_client_def recv_call_error sizeof_buffer_def)

lemma handle_client_recv_data:
  "recv_result c = Recv_data q \<Longrightarrow>
   handle_client c fd =
     Inr \<lparr>h_trace = [Call_recv fd 255 0,
                     Printf (''Cliente: '' @ c_str (take 255 q) @ [CHR 0x0A]),
                     Call_send fd ''ACK Server'' 0] @
                    (case send_result c of
                       Send_sigpipe \<Rightarrow> []
                     | Send_returns r \<Rightarrow>
                         [Puts (if r < 0 then ''Erro ao enviar dados para o cliente''
                                else ''Resposta enviada'')]),
          h_buffer = terminated_buffer (stack_bytes c) q,
          h_end = (case send_result c of
                     Send_sigpipe \<Rightarrow> Killed_by_SIGPIPE
                   | Send_returns r \<Rightarrow> Returned)\<rparr>"
  unfolding handle_client_def
  by (simp add: recv_call_data sizeof_buffer_def store_after_recv c_str_terminated_buffer
      wire_payload Let_def split: send_outcome.split)

lemma handle_client_total: "\<exists>h. handle_client c fd = Inr h"
proof (cases "recv_result c")
  case Recv_error
  then show ?thesis by (simp add: handle_client_recv_error)
next
  case (Recv_data q)
  then show ?thesis by (simp add: handle_client_recv_data)
qed

section \<open>Facts about the accept loop\<close>

lemma new_events_append: "new_events s \<lparr>iter = i, trace = trace s @ es\<rparr> = es"
  by (simp add: new_events_def)

lemma loop_body_accept_failed:
  "accept_ret (env (iter s)) < 0 \<Longrightarrow>
   loop_body env sock s =
     Inr \<lparr>iter = Suc (iter s),
          trace = trace s @ [Puts ''Aguardando conexao do cliente...'', Call_accept sock,
                             Puts ''Erro ao aceitar a conexao'']\<rparr>"
  by (simp add: loop_body_def)

lemma loop_body_recv_error:
  assumes "0 \<le> accept_ret (env (iter s))" and "recv_result (env (iter s)) = Recv_error"
  shows "loop_body env sock s =
     Inr \<lparr>iter = Suc (iter s),
          trace = trace s @
            [Puts ''Aguardando conexao do cliente...'', Call_accept sock, Puts ''Cliente conectado'',
             Call_recv (accept_ret (env (iter s))) 255 0,
             Puts ''Erro ao receber dados do cliente'',
             Call_close (accept_ret (env (iter s))), Puts ''Conexao encerrada'']\<rparr>"
  using assms by (simp add: loop_body_def handle_client_recv_error Let_def)

lemma loop_body_recv_data:
  assumes "0 \<le> accept_ret (env (iter s))" and "recv_result (env (iter s)) = Recv_data q"
    and "send_result (env (iter s)) = Send_returns r"
  shows "loop_body env sock s =
     Inr \<lparr>iter = Suc (iter s),
          trace = trace s @
            [Puts ''Aguardando conexao do cliente...'', Call_accept sock, Puts ''Cliente conectado'',
             Call_recv (accept_ret (env (iter s))) 255 0,
             Printf (''Cliente: '' @ c_str (take 255 q) @ [CHR 0x0A]),
             Call_send (accept_ret (env (iter s))) ''ACK Server'' 0,
             Puts (if r < 0 then ''Erro ao enviar dados para o cliente'' else ''Resposta enviada''),
             Call_close (accept_ret (env (iter s))), Puts ''Conexao encerrada'']\<rparr>"
  using assms by (simp add: loop_body_def handle_client_recv_data Let_def)

lemma loop_body_sigpipe:
  assumes "0 \<le> accept_ret (env (iter s))" and "recv_result (env (iter s)) = Recv_data q"
    and "send_result (env (iter s)) = Send_sigpipe"
  shows "loop_body env sock s =
     Inl (Process_killed
       (trace s @
          [Puts ''Aguardando conexao do cliente...'', Call_accept sock, Puts ''Cliente conectado'',
           Call_recv (accept_ret (env (iter s))) 255 0,
           Printf (''Cliente: '' @ c_str (take 255 q) @ [CHR 0x0A]),
           Call_send (accept_ret (env (iter s))) ''ACK Server'' 0]))"
  using assms by (simp add: loop_body_def handle_client_recv_data Let_def)










section \<open>Properties of the server\<close>

text \<open>
  C1. On an accepted connection whose receive succeeds with a message of 0 to 255 bytes and
  whose send succeeds, one pass of the loop is exactly: accept, one \<open>recv\<close>, the line
  printed for the client's text, one \<open>send\<close> of the bytes \<open>ACK Server\<close>, then \<open>close\<close>. The
  bytes sent do not depend on the message. They are the 10 bytes of the literal before its
  terminator; only the copy in memory (11 bytes) is terminated.
\<close>

theorem ack_after_successful_receive:
  assumes "0 \<le> accept_ret (env (iter s))"
    and "recv_result (env (iter s)) = Recv_data msg"
    and "length msg \<le> 255"
    and "send_result (env (iter s)) = Send_returns r"
    and "0 \<le> r"
  shows "loop_body env sock s =
           Inr \<lparr>iter = Suc (iter s),
                trace = trace s @
                  [Puts ''Aguardando conexao do cliente...'', Call_accept sock,
                   Puts ''Cliente conectado'',
                   Call_recv (accept_ret (env (iter s))) 255 0,
                   Printf (''Cliente: '' @ c_str msg @ [CHR 0x0A]),
                   Call_send (accept_ret (env (iter s))) ''ACK Server'' 0,
                   Puts ''Resposta enviada'',
                   Call_close (accept_ret (env (iter s))), Puts ''Conexao encerrada'']\<rparr> \<and>
         take (strlen response) response = ''ACK Server'' \<and>
         length (take (strlen response) response) = 10 \<and>
         length response = 11"
  using assms
  by (simp add: loop_body_recv_data [of env s msg r sock] wire_payload)
    (simp add: response_def string_literal_def)

theorem ack_after_successful_receive_witness:
  "loop_body (\<lambda>i. \<lparr>accept_ret = 4, stack_bytes = ''junk'', recv_result = Recv_data ''hello'',
                    send_result = Send_returns 10\<rparr>) 3 \<lparr>iter = 0, trace = []\<rparr> =
     Inr \<lparr>iter = 1,
          trace = [Puts ''Aguardando conexao do cliente...'', Call_accept 3,
                   Puts ''Cliente conectado'', Call_recv 4 255 0,
                   Printf (''Cliente: hello'' @ [CHR 0x0A]),
                   Call_send 4 ''ACK Server'' 0, Puts ''Resposta enviada'',
                   Call_close 4, Puts ''Conexao encerrada'']\<rparr>"
  using ack_after_successful_receive
    [of "\<lambda>i. \<lparr>accept_ret = 4, stack_bytes = ''junk'', recv_result = Recv_data ''hello'',
               send_result = Send_returns 10\<rparr>" "\<lparr>iter = 0, trace = []\<rparr>" "''hello''" 10 3]
  by (simp add: c_str_def NUL_def)

text \<open>
  C3. The handler calls \<open>recv\<close> once, asking for \<open>sizeof(buffer) - 1 = 255\<close> bytes of the
  256-byte buffer. When \<open>recv\<close> reports \<open>n \<ge> 0\<close> bytes, the buffer then holds the first \<open>n\<close>
  bytes of the message followed by the terminator at index \<open>n\<close>, where \<open>n\<close> is the length of
  the message or 255, whichever is smaller. A message of more than 255 bytes is seen as its
  first 255 bytes, terminated at index 255.
\<close>

theorem single_receive_truncates_at_255:
  assumes "recv_result c = Recv_data msg"
  shows "\<exists>h. handle_client c fd = Inr h \<and>
           filter is_recv (h_trace h) = [Call_recv fd (sizeof_buffer - 1) 0] \<and>
           sizeof_buffer - 1 = 255 \<and>
           length (h_buffer h) = sizeof_buffer \<and>
           take (min 255 (length msg)) (h_buffer h) = take 255 msg \<and>
           h_buffer h ! min 255 (length msg) = NUL \<and>
           c_str (h_buffer h) = c_str (take 255 msg) \<and>
           (255 < length msg \<longrightarrow>
              take 255 (h_buffer h) = take 255 msg \<and> h_buffer h ! 255 = NUL)"
proof -
  let ?h = "\<lparr>h_trace = [Call_recv fd 255 0,
                         Printf (''Cliente: '' @ c_str (take 255 msg) @ [CHR 0x0A]),
                         Call_send fd ''ACK Server'' 0] @
                        (case send_result c of
                           Send_sigpipe \<Rightarrow> []
                         | Send_returns r \<Rightarrow>
                             [Puts (if r < 0 then ''Erro ao enviar dados para o cliente''
                                    else ''Resposta enviada'')]),
              h_buffer = terminated_buffer (stack_bytes c) msg,
              h_end = (case send_result c of
                         Send_sigpipe \<Rightarrow> Killed_by_SIGPIPE
                       | Send_returns r \<Rightarrow> Returned)\<rparr>"
  have run: "handle_client c fd = Inr ?h"
    using assms by (rule handle_client_recv_data)
  have calls: "filter is_recv (h_trace ?h) = [Call_recv fd (sizeof_buffer - 1) 0]"
    by (simp add: sizeof_buffer_def split: send_outcome.split)
  have long: "take 255 (h_buffer ?h) = take 255 msg \<and> h_buffer ?h ! 255 = NUL"
    if "255 < length msg"
  proof -
    from that have "min 255 (length msg) = 255" by simp
    with take_terminated_buffer [of msg "stack_bytes c"]
      nth_terminated_buffer [of "stack_bytes c" msg]
    show ?thesis by simp
  qed
  show ?thesis
    using run calls long
    by (simp add: length_terminated_buffer take_terminated_buffer nth_terminated_buffer
        c_str_terminated_buffer sizeof_buffer_def)
qed

theorem single_receive_truncates_at_255_witness:
  "\<exists>h. handle_client \<lparr>accept_ret = 4, stack_bytes = replicate 256 (CHR ''z''),
                        recv_result = Recv_data (replicate 300 (CHR ''a'')), send_result = Send_returns 10\<rparr> 4 = Inr h \<and>
       take 255 (h_buffer h) = replicate 255 (CHR ''a'') \<and> h_buffer h ! 255 = NUL"
proof -
  have "recv_result \<lparr>accept_ret = 4, stack_bytes = replicate 256 (CHR ''z''),
          recv_result = Recv_data (replicate 300 (CHR ''a'')), send_result = Send_returns 10\<rparr> =
        Recv_data (replicate 300 (CHR ''a''))"
    by simp
  from single_receive_truncates_at_255 [OF this, of 4]
  show ?thesis by auto
qed

text \<open>
  C4. When \<open>recv\<close> reports an error, the handler prints the receive failure and returns:
  the buffer is as it was on entry (no terminator is stored) and \<open>send\<close> is not called. The
  loop still closes the connection afterwards.
\<close>

theorem receive_error_no_response:
  assumes "0 \<le> accept_ret (env (iter s))"
    and "recv_result (env (iter s)) = Recv_error"
  shows "handle_client (env (iter s)) (accept_ret (env (iter s))) =
           Inr \<lparr>h_trace = [Call_recv (accept_ret (env (iter s))) 255 0,
                           Puts ''Erro ao receber dados do cliente''],
                h_buffer = fresh_buffer (stack_bytes (env (iter s))), h_end = Returned\<rparr> \<and>
         loop_body env sock s =
           Inr \<lparr>iter = Suc (iter s),
                trace = trace s @
                  [Puts ''Aguardando conexao do cliente...'', Call_accept sock,
                   Puts ''Cliente conectado'',
                   Call_recv (accept_ret (env (iter s))) 255 0,
                   Puts ''Erro ao receber dados do cliente'',
                   Call_close (accept_ret (env (iter s))), Puts ''Conexao encerrada'']\<rparr>"
  using assms
  by (simp add: handle_client_recv_error loop_body_recv_error [of env s sock])

theorem receive_error_no_response_witness:
  "handle_client \<lparr>accept_ret = 4, stack_bytes = replicate 256 (CHR ''z''),
                  recv_result = Recv_error, send_result = Send_returns 10\<rparr> 4 =
     Inr \<lparr>h_trace = [Call_recv 4 255 0, Puts ''Erro ao receber dados do cliente''],
          h_buffer = replicate 256 (CHR ''z''), h_end = Returned\<rparr> \<and>
   loop_body (\<lambda>i. \<lparr>accept_ret = 4, stack_bytes = replicate 256 (CHR ''z''),
                    recv_result = Recv_error, send_result = Send_returns 10\<rparr>) 3 \<lparr>iter = 0, trace = []\<rparr> =
     Inr \<lparr>iter = 1,
          trace = [Puts ''Aguardando conexao do cliente...'', Call_accept 3,
                   Puts ''Cliente conectado'', Call_recv 4 255 0,
                   Puts ''Erro ao receber dados do cliente'',
                   Call_close 4, Puts ''Conexao encerrada'']\<rparr>"
  using receive_error_no_response
    [of "\<lambda>i. \<lparr>accept_ret = 4, stack_bytes = replicate 256 (CHR ''z''),
               recv_result = Recv_error, send_result = Send_returns 10\<rparr>" "\<lparr>iter = 0, trace = []\<rparr>" 3]
  by (simp add: fresh_buffer_def sizeof_buffer_def)

text \<open>
  C5. On an accepted connection the handler makes exactly one \<open>recv\<close>, followed by one
  \<open>send\<close> when the receive succeeded and by none when it failed. The handler returns when
  the receive failed and whenever \<open>send\<close> returns, with success or with an error; each
  time it returns, the loop closes the connection right after the handler's events and
  moves to the next pass, so the connection serves no second exchange.
\<close>

theorem one_receive_at_most_one_send_then_close:
  assumes "0 \<le> accept_ret (env (iter s))"
  shows "\<exists>h. handle_client (env (iter s)) (accept_ret (env (iter s))) = Inr h \<and>
           filter is_syscall (h_trace h) =
             Call_recv (accept_ret (env (iter s))) 255 0 #
             (case recv_result (env (iter s)) of
                Recv_error \<Rightarrow> []
              | Recv_data q \<Rightarrow> [Call_send (accept_ret (env (iter s))) ''ACK Server'' 0]) \<and>
           (h_end h = Returned) =
             (case recv_result (env (iter s)) of
                Recv_error \<Rightarrow> True
              | Recv_data q \<Rightarrow>
                  (case send_result (env (iter s)) of
                     Send_returns r \<Rightarrow> True
                   | Send_sigpipe \<Rightarrow> False)) \<and>
           (h_end h = Returned \<longrightarrow>
              loop_body env sock s =
                Inr \<lparr>iter = Suc (iter s),
                     trace = trace s @
                       [Puts ''Aguardando conexao do cliente...'', Call_accept sock,
                        Puts ''Cliente conectado''] @
                       h_trace h @
                       [Call_close (accept_ret (env (iter s))), Puts ''Conexao encerrada'']\<rparr>)"
proof -
  obtain h where h: "handle_client (env (iter s)) (accept_ret (env (iter s))) = Inr h"
    using handle_client_total by blast
  have calls: "filter is_syscall (h_trace h) =
      Call_recv (accept_ret (env (iter s))) 255 0 #
      (case recv_result (env (iter s)) of
         Recv_error \<Rightarrow> []
       | Recv_data q \<Rightarrow> [Call_send (accept_ret (env (iter s))) ''ACK Server'' 0])"
  proof (cases "recv_result (env (iter s))")
    case Recv_error
    from handle_client_recv_error [OF this, of "accept_ret (env (iter s))"] h Recv_error
    show ?thesis by auto
  next
    case (Recv_data q)
    from handle_client_recv_data [OF this, of "accept_ret (env (iter s))"] h Recv_data
    show ?thesis by (auto split: send_outcome.split)
  qed
  have ends: "(h_end h = Returned) =
      (case recv_result (env (iter s)) of
         Recv_error \<Rightarrow> True
       | Recv_data q \<Rightarrow>
           (case send_result (env (iter s)) of
              Send_returns r \<Rightarrow> True
            | Send_sigpipe \<Rightarrow> False))"
  proof (cases "recv_result (env (iter s))")
    case Recv_error
    from handle_client_recv_error [OF this, of "accept_ret (env (iter s))"] h Recv_error
    show ?thesis by auto
  next
    case (Recv_data q)
    from handle_client_recv_data [OF this, of "accept_ret (env (iter s))"] h Recv_data
    show ?thesis by (auto split: send_outcome.split)
  qed
  have closes: "loop_body env sock s =
      Inr \<lparr>iter = Suc (iter s),
           trace = trace s @
             [Puts ''Aguardando conexao do cliente...'', Call_accept sock,
              Puts ''Cliente conectado''] @
             h_trace h @
             [Call_close (accept_ret (env (iter s))), Puts ''Conexao encerrada'']\<rparr>"
    if "h_end h = Returned"
    using assms h that by (simp add: loop_body_def Let_def)
  from h calls ends closes show ?thesis by blast
qed

theorem one_receive_at_most_one_send_then_close_witness:
  "loop_body (always \<lparr>accept_ret = 4, stack_bytes = [], recv_result = Recv_data ''hello'',
                       send_result = Send_returns 10\<rparr>) 3 \<lparr>iter = 0, trace = []\<rparr> =
     Inr \<lparr>iter = 1,
          trace = [Puts ''Aguardando conexao do cliente...'', Call_accept 3,
                   Puts ''Cliente conectado'', Call_recv 4 255 0,
                   Printf (''Cliente: hello'' @ [CHR 0x0A]),
                   Call_send 4 ''ACK Server'' 0, Puts ''Resposta enviada'',
                   Call_close 4, Puts ''Conexao encerrada'']\<rparr>"
proof -
  let ?c = "\<lparr>accept_ret = 4, stack_bytes = [], recv_result = Recv_data ''hello'',
             send_result = Send_returns 10\<rparr>"
  have run: "handle_client ?c 4 =
      Inr \<lparr>h_trace = [Call_recv 4 255 0, Printf (''Cliente: hello'' @ [CHR 0x0A]),
                      Call_send 4 ''ACK Server'' 0, Puts ''Resposta enviada''],
           h_buffer = terminated_buffer [] ''hello'', h_end = Returned\<rparr>"
    by (simp add: handle_client_recv_data [of ?c "''hello''" 4] c_str_def NUL_def)
  from one_receive_at_most_one_send_then_close [of "always ?c" "\<lparr>iter = 0, trace = []\<rparr>" 3]
  show ?thesis
    by (simp add: always_def run)
qed



text \<open>
  C8. Two passes of the loop in which \<open>accept\<close>, \<open>recv\<close> and \<open>send\<close> have the same outcome
  end the same way and produce the same events, whatever has happened before either of
  them and whatever bytes the buffer holds on entry: nothing of an earlier connection
  shows in a later one. When the connection is accepted and the receive succeeds, the one
  \<open>send\<close> of each pass carries the fixed response \<open>ACK Server\<close>.
\<close>

theorem same_exchange_same_response:
  assumes "accept_ret (env (iter s)) = accept_ret (env' (iter t))"
    and "recv_result (env (iter s)) = recv_result (env' (iter t))"
    and "send_result (env (iter s)) = send_result (env' (iter t))"
  shows "pass_events s (loop_body env sock s) = pass_events t (loop_body env' sock t) \<and>
         isl (loop_body env sock s) = isl (loop_body env' sock t) \<and>
         (0 \<le> accept_ret (env (iter s)) \<and> received_data (recv_result (env (iter s))) \<longrightarrow>
            filter is_send (pass_events s (loop_body env sock s)) =
              [Call_send (accept_ret (env (iter s))) ''ACK Server'' 0] \<and>
            filter is_send (pass_events t (loop_body env' sock t)) =
              [Call_send (accept_ret (env' (iter t))) ''ACK Server'' 0])"
proof (cases "accept_ret (env (iter s)) < 0")
  case True
  with assms(1) have "accept_ret (env' (iter t)) < 0" by simp
  with True show ?thesis
    by (simp add: loop_body_accept_failed new_events_append)
next
  case False
  then have a: "0 \<le> accept_ret (env (iter s))" by simp
  with assms(1) have a': "0 \<le> accept_ret (env' (iter t))" by simp
  show ?thesis
  proof (cases "recv_result (env (iter s))")
    case Recv_error
    with assms(2) have "recv_result (env' (iter t)) = Recv_error" by simp
    with Recv_error a a' assms(1) show ?thesis
      by (simp add: loop_body_recv_error [of env s sock] loop_body_recv_error [of env' t sock]
          new_events_append)
  next
    case (Recv_data q)
    with assms(2) have q': "recv_result (env' (iter t)) = Recv_data q" by simp
    show ?thesis
    proof (cases "send_result (env (iter s))")
      case (Send_returns r)
      with assms(3) have "send_result (env' (iter t)) = Send_returns r" by simp
      with Send_returns Recv_data q' a a' assms(1) show ?thesis
        by (simp add: loop_body_recv_data [of env s q r sock]
            loop_body_recv_data [of env' t q r sock] new_events_append)
    next
      case Send_sigpipe
      with assms(3) have "send_result (env' (iter t)) = Send_sigpipe" by simp
      with Send_sigpipe Recv_data q' a a' assms(1) show ?thesis
        by (simp add: loop_body_sigpipe [of env s q sock] loop_body_sigpipe [of env' t q sock])
    qed
  qed
qed

theorem same_exchange_same_response_witness:
  "pass_events \<lparr>iter = 0, trace = []\<rparr>
     (loop_body (always \<lparr>accept_ret = 4, stack_bytes = [], recv_result = Recv_data ''hello'',
                         send_result = Send_returns 10\<rparr>) 3 \<lparr>iter = 0, trace = []\<rparr>) =
   pass_events \<lparr>iter = 7, trace = [Puts ''earlier'']\<rparr>
     (loop_body (always \<lparr>accept_ret = 4, stack_bytes = ''secret of the previous client'',
                         recv_result = Recv_data ''hello'', send_result = Send_returns 10\<rparr>) 3
        \<lparr>iter = 7, trace = [Puts ''earlier'']\<rparr>) \<and>
   filter is_send
     (pass_events \<lparr>iter = 7, trace = [Puts ''earlier'']\<rparr>
        (loop_body (always \<lparr>accept_ret = 4, stack_bytes = ''secret of the previous client'',
                            recv_result = Recv_data ''hello'', send_result = Send_returns 10\<rparr>) 3
           \<lparr>iter = 7, trace = [Puts ''earlier'']\<rparr>)) =
   [Call_send 4 ''ACK Server'' 0]"
  using same_exchange_same_response
    [of "always \<lparr>accept_ret = 4, stack_bytes = [], recv_result = Recv_data ''hello'',
                  send_result = Send_returns 10\<rparr>" "\<lparr>iter = 0, trace = []\<rparr>"
        "always \<lparr>accept_ret = 4, stack_bytes = ''secret of the previous client'',
                  recv_result = Recv_data ''hello'', send_result = Send_returns 10\<rparr>"
        "\<lparr>iter = 7, trace = [Puts ''earlier'']\<rparr>" 3]
  by (simp add: always_def)




text \<open>
  C10. The value \<open>recv\<close> returns is at most 255, and the buffer has 256 bytes, so the store
  of the terminator at that index, when the value is not negative, is inside the buffer:
  the handler never faults.
\<close>

theorem terminator_write_in_bounds:
  "(case recv_call (recv_result c) (fresh_buffer (stack_bytes c)) (sizeof_buffer - 1) of
      (n, buffer) \<Rightarrow>
        n \<le> 255 \<and> length buffer = 256 \<and>
        (0 \<le> n \<longrightarrow> store_char buffer n NUL = Inr (buffer[nat n := NUL]))) \<and>
   (\<forall>i. handle_client c fd \<noteq> Inl (Out_of_bounds i))"
proof -
  have "handle_client c fd \<noteq> Inl (Out_of_bounds i)" for i
    using handle_client_total [of c fd] by auto
  moreover have "case recv_call (recv_result c) (fresh_buffer (stack_bytes c)) (sizeof_buffer - 1) of
      (n, buffer) \<Rightarrow>
        n \<le> 255 \<and> length buffer = 256 \<and>
        (0 \<le> n \<longrightarrow> store_char buffer n NUL = Inr (buffer[nat n := NUL]))"
  proof (cases "recv_result c")
    case Recv_error
    then show ?thesis
      by (simp add: recv_call_error length_fresh_buffer sizeof_buffer_def)
  next
    case (Recv_data q)
    then show ?thesis
      by (simp add: recv_call_data length_fresh_buffer sizeof_buffer_def store_char_def min_def)
  qed
  ultimately show ?thesis by blast
qed

theorem terminator_write_in_bounds_witness:
  "(case recv_call (Recv_data (replicate 300 (CHR ''a''))) (fresh_buffer []) (sizeof_buffer - 1) of
      (n, buffer) \<Rightarrow> n = 255 \<and> store_char buffer n NUL = Inr (buffer[255 := NUL]))"
  using terminator_write_in_bounds
    [of "\<lparr>accept_ret = 4, stack_bytes = [], recv_result = Recv_data (replicate 300 (CHR ''a'')),
          send_result = Send_returns 10\<rparr>" 4]
  by (simp add: recv_call_data sizeof_buffer_def)

text \<open>
  C2. Start is to report a bind error exactly when the path is in use or inaccessible.
  On a host where the path is free and accessible, \<open>start_server\<close> passes the address length
  \<open>sizeof(server_address) < 0\<close>, which is 0, to \<open>bind\<close>; the kernel refuses it, and Start
  prints the bind error and returns \<open>-1\<close>. With the length \<open>sizeof(server_address)\<close> the same
  \<open>bind\<close> returns 0.
\<close>

theorem bind_error_on_free_path:
  "start_server (host free_path) =
     \<lparr>ret = - 1, socket_global = 3,
      s_trace = [Call_socket AF_UNIX 1 0,
                 Call_bind 3 \<lparr>sun_family = AF_UNIX, sun_path = ''/tmp/arq_socket''\<rparr> 0,
                 Puts ''Erro ao vincular o server_socket'']\<rparr> \<and>
   unix_bind free_path 3 \<lparr>sun_family = AF_UNIX, sun_path = ''/tmp/arq_socket''\<rparr>
     sizeof_sockaddr_un = 0"
  by (simp add: start_server_def host_def free_path_def unix_bind_def c_less_size_t_def
      sizeof_sa_family_def sizeof_sockaddr_un_def Let_def)

text \<open>
  C7. Start is to create the socket, bind it to \<open>/tmp/arq_socket\<close> and put it in listening
  state with backlog 5, returning 0 when all three succeed. On a host where \<open>socket\<close> and
  \<open>listen\<close> would succeed, whatever the state of the path, \<open>start_server\<close> returns \<open>-1\<close> and
  never calls \<open>listen\<close>, since \<open>bind\<close> is given the address length 0.
\<close>

theorem start_never_reaches_listen:
  "ret (start_server (host p)) = - 1 \<and>
   (\<forall>fd backlog. Call_listen fd backlog \<notin> set (s_trace (start_server (host p))))"
  by (simp add: start_server_def host_def unix_bind_def zero_address_length
      sizeof_sa_family_def Let_def)

end
